theory Spec2Isabelle
  imports Complex_Main
begin

section \<open>The measurement form\<close>

text \<open>
  The component \<^verbatim>\<open>FractureVisualization\<close> keeps one piece of form state, the
  measurement set, and two effects that build and place the two bone meshes in a three.js
  scene. Both variants found in the source file (the untyped one and the typed one) have
  the same measurement set, the same \<^verbatim>\<open>handleMeasurementChange\<close>, the same
  \<^verbatim>\<open>updateBoneGeometries\<close> and the same two effects.
\<close>

subsection \<open>Numbers as the form stores them\<close>

text \<open>
  A field of the measurement set holds a JavaScript number. What matters to the form is
  whether that number is \<^verbatim>\<open>NaN\<close>, an infinity or a finite value; finite values
  are kept as exact reals (the rounding of binary floating point is not modelled, and
  \<open>-0\<close> is identified with \<open>0\<close>).
\<close>

datatype jsnum = NaN | Num real | PosInfinity | NegInfinity

text \<open>Unary minus on numbers.\<close>

fun negate :: "jsnum \<Rightarrow> jsnum" where
  "negate NaN = NaN"
| "negate (Num r) = Num (- r)"
| "negate PosInfinity = NegInfinity"
| "negate NegInfinity = PosInfinity"

text \<open>\<^verbatim>\<open>ToBoolean\<close> on a number: \<^verbatim>\<open>NaN\<close> and zero are falsy.\<close>

fun truthy :: "jsnum \<Rightarrow> bool" where
  "truthy NaN = False"
| "truthy (Num r) = (r \<noteq> 0)"
| "truthy PosInfinity = True"
| "truthy NegInfinity = True"

text \<open>The operator \<^verbatim>\<open>a || b\<close>: the left operand when it is truthy, else the right one.\<close>

definition logicalOr :: "jsnum \<Rightarrow> jsnum \<Rightarrow> jsnum" where
  "logicalOr a b = (if truthy a then a else b)"

subsection \<open>The built-in \<^verbatim>\<open>parseFloat\<close>\<close>

text \<open>
  \<^verbatim>\<open>parseFloat(value)\<close> skips leading white space and reads the longest prefix that
  is a \<^verbatim>\<open>StrDecimalLiteral\<close>: an optional sign, then either \<^verbatim>\<open>Infinity\<close> or
  decimal digits with an optional fraction and an optional exponent. When no prefix has
  that shape the result is \<^verbatim>\<open>NaN\<close>. Strings are byte strings here, so the white
  space recognised is the ASCII part of \<^verbatim>\<open>StrWhiteSpaceChar\<close>.
\<close>

definition isStrWhiteSpaceChar :: "char \<Rightarrow> bool" where
  "isStrWhiteSpaceChar c =
     (c \<in> set [CHR '' '', CHR 0x09, CHR 0x0A, CHR 0x0B, CHR 0x0C, CHR 0x0D])"

definition isDecimalDigit :: "char \<Rightarrow> bool" where
  "isDecimalDigit c = (c \<in> set ''0123456789'')"

definition digitValue :: "char \<Rightarrow> nat" where
  "digitValue c = of_char c - 48"

definition digitsValue :: "string \<Rightarrow> nat" where
  "digitsValue ds = foldl (\<lambda>acc c. 10 * acc + digitValue c) 0 ds"

text \<open>
  The exponent part \<^verbatim>\<open>e\<close> or \<^verbatim>\<open>E\<close>, an optional sign and at least one digit;
  anything else is not part of the literal and counts as exponent \<open>0\<close>.
\<close>

definition exponentPart :: "string \<Rightarrow> int" where
  "exponentPart s =
     (case s of
        [] \<Rightarrow> 0
      | c # t \<Rightarrow>
          if c = CHR ''e'' \<or> c = CHR ''E'' then
            (case t of
               [] \<Rightarrow> 0
             | d # u \<Rightarrow>
                 if d = CHR ''+'' then
                   (if takeWhile isDecimalDigit u = [] then 0
                    else int (digitsValue (takeWhile isDecimalDigit u)))
                 else if d = CHR ''-'' then
                   (if takeWhile isDecimalDigit u = [] then 0
                    else - int (digitsValue (takeWhile isDecimalDigit u)))
                 else
                   (if takeWhile isDecimalDigit t = [] then 0
                    else int (digitsValue (takeWhile isDecimalDigit t))))
          else 0)"

definition scaleByPowerOfTen :: "real \<Rightarrow> int \<Rightarrow> real" where
  "scaleByPowerOfTen r e = (if 0 \<le> e then r * 10 ^ nat e else r / 10 ^ nat (- e))"

definition strUnsignedDecimalLiteral :: "string \<Rightarrow> jsnum" where
  "strUnsignedDecimalLiteral s =
     (if take 8 s = ''Infinity'' then PosInfinity
      else
        let intDigits = takeWhile isDecimalDigit s;
            afterInt = dropWhile isDecimalDigit s;
            hasPoint = (case afterInt of [] \<Rightarrow> False | c # t \<Rightarrow> c = CHR ''.'');
            fracDigits = (if hasPoint then takeWhile isDecimalDigit (tl afterInt) else []);
            afterFrac = (if hasPoint then dropWhile isDecimalDigit (tl afterInt) else afterInt)
        in if intDigits = [] \<and> fracDigits = [] then NaN
           else Num (scaleByPowerOfTen
                  (real (digitsValue intDigits)
                     + real (digitsValue fracDigits) / 10 ^ length fracDigits)
                  (exponentPart afterFrac)))"

definition parseFloat :: "string \<Rightarrow> jsnum" where
  "parseFloat s =
     (let trimmed = dropWhile isStrWhiteSpaceChar s
      in case trimmed of
           [] \<Rightarrow> NaN
         | c # t \<Rightarrow>
             if c = CHR ''+'' then strUnsignedDecimalLiteral t
             else if c = CHR ''-'' then negate (strUnsignedDecimalLiteral t)
             else strUnsignedDecimalLiteral trimmed)"

subsection \<open>The measurement set and its edits\<close>

text \<open>
  The measurement set has eight fields. The record is polymorphic in the type of a
  field: the form stores \<^typ>\<open>jsnum\<close> values, the geometry below is stated for
  measurement sets of finite numbers, that is of reals.
\<close>

record 'n measurements =
  fractureLength :: 'n
  fracturePosition :: 'n
  medialDisplacement :: 'n
  anteriorDisplacement :: 'n
  proximalDisplacement :: 'n
  valgusAngulation :: 'n
  anteversionAngulation :: 'n
  rotationalAngulation :: 'n

definition initialMeasurements :: "real measurements" where
  "initialMeasurements =
     \<lparr> fractureLength = 300, fracturePosition = 150,
       medialDisplacement = 0, anteriorDisplacement = 0, proximalDisplacement = 0,
       valgusAngulation = 0, anteversionAngulation = 0, rotationalAngulation = 0 \<rparr>"

text \<open>The same initial values as the form state holds them.\<close>

definition initialFormState :: "jsnum measurements" where
  "initialFormState =
     \<lparr> fractureLength = Num 300, fracturePosition = Num 150,
       medialDisplacement = Num 0, anteriorDisplacement = Num 0,
       proximalDisplacement = Num 0,
       valgusAngulation = Num 0, anteversionAngulation = Num 0,
       rotationalAngulation = Num 0 \<rparr>"

text \<open>\<^verbatim>\<open>MeasurementKey\<close>: the keys every call site of the handler passes.\<close>

datatype measurementKey =
    FractureLength | FracturePosition
  | MedialDisplacement | AnteriorDisplacement | ProximalDisplacement
  | ValgusAngulation | AnteversionAngulation | RotationalAngulation

fun getField :: "measurementKey \<Rightarrow> 'n measurements \<Rightarrow> 'n" where
  "getField FractureLength m = fractureLength m"
| "getField FracturePosition m = fracturePosition m"
| "getField MedialDisplacement m = medialDisplacement m"
| "getField AnteriorDisplacement m = anteriorDisplacement m"
| "getField ProximalDisplacement m = proximalDisplacement m"
| "getField ValgusAngulation m = valgusAngulation m"
| "getField AnteversionAngulation m = anteversionAngulation m"
| "getField RotationalAngulation m = rotationalAngulation m"

text \<open>The object spread with a computed key, \<^verbatim>\<open>{...prev, [key]: v}\<close>.\<close>

fun setField :: "measurementKey \<Rightarrow> 'n \<Rightarrow> 'n measurements \<Rightarrow> 'n measurements" where
  "setField FractureLength v m = m\<lparr>fractureLength := v\<rparr>"
| "setField FracturePosition v m = m\<lparr>fracturePosition := v\<rparr>"
| "setField MedialDisplacement v m = m\<lparr>medialDisplacement := v\<rparr>"
| "setField AnteriorDisplacement v m = m\<lparr>anteriorDisplacement := v\<rparr>"
| "setField ProximalDisplacement v m = m\<lparr>proximalDisplacement := v\<rparr>"
| "setField ValgusAngulation v m = m\<lparr>valgusAngulation := v\<rparr>"
| "setField AnteversionAngulation v m = m\<lparr>anteversionAngulation := v\<rparr>"
| "setField RotationalAngulation v m = m\<lparr>rotationalAngulation := v\<rparr>"

text \<open>
  \<^verbatim>\<open>handleMeasurementChange(key, value)\<close> hands React the updater
  \<^verbatim>\<open>prev => ({...prev, [key]: parseFloat(value) || 0})\<close>; the function below is that
  updater, from the previous measurement set to the next one.
\<close>

definition handleMeasurementChange ::
  "measurementKey \<Rightarrow> string \<Rightarrow> jsnum measurements \<Rightarrow> jsnum measurements" where
  "handleMeasurementChange key v prev = setField key (logicalOr (parseFloat v) (Num 0)) prev"

text \<open>A sequence of edits, applied one after the other to the form state.\<close>

definition applyEdits ::
  "(measurementKey \<times> string) list \<Rightarrow> jsnum measurements \<Rightarrow> jsnum measurements" where
  "applyEdits edits m0 = foldl (\<lambda>m (k, v). handleMeasurementChange k v m) m0 edits"

definition noFieldIsNaN :: "jsnum measurements \<Rightarrow> bool" where
  "noFieldIsNaN m =
     (fractureLength m \<noteq> NaN \<and> fracturePosition m \<noteq> NaN
      \<and> medialDisplacement m \<noteq> NaN \<and> anteriorDisplacement m \<noteq> NaN
      \<and> proximalDisplacement m \<noteq> NaN
      \<and> valgusAngulation m \<noteq> NaN \<and> anteversionAngulation m \<noteq> NaN
      \<and> rotationalAngulation m \<noteq> NaN)"

section \<open>The scene graph\<close>

text \<open>
  The bones live in a three.js scene. The part of three.js that the two effects use is
  embedded here: vectors, rotation and transformation matrices, \<^verbatim>\<open>Object3D\<close> with
  \<^verbatim>\<open>add\<close>, \<^verbatim>\<open>remove\<close> and \<^verbatim>\<open>attach\<close>, and the default Euler order
  \<^verbatim>\<open>'XYZ'\<close>. Coordinates are exact reals; \<^verbatim>\<open>Math.PI\<close> is \<open>pi\<close>.
\<close>

subsection \<open>Vectors and matrices\<close>

datatype vector3 = Vector3 (vx: real) (vy: real) (vz: real)

text \<open>A 3 by 3 matrix, row by row.\<close>

datatype matrix3 = Matrix3 real real real  real real real  real real real

definition identity3 :: matrix3 where
  "identity3 = Matrix3 1 0 0  0 1 0  0 0 1"

fun setX :: "vector3 \<Rightarrow> real \<Rightarrow> vector3" where
  "setX (Vector3 x y z) v = Vector3 v y z"

fun setY :: "vector3 \<Rightarrow> real \<Rightarrow> vector3" where
  "setY (Vector3 x y z) v = Vector3 x v z"

fun setZ :: "vector3 \<Rightarrow> real \<Rightarrow> vector3" where
  "setZ (Vector3 x y z) v = Vector3 x y v"

fun addVectors :: "vector3 \<Rightarrow> vector3 \<Rightarrow> vector3" where
  "addVectors (Vector3 x y z) (Vector3 u v w) = Vector3 (x + u) (y + v) (z + w)"

fun negateVector :: "vector3 \<Rightarrow> vector3" where
  "negateVector (Vector3 x y z) = Vector3 (- x) (- y) (- z)"

fun applyMatrix3 :: "matrix3 \<Rightarrow> vector3 \<Rightarrow> vector3" where
  "applyMatrix3 (Matrix3 a11 a12 a13  a21 a22 a23  a31 a32 a33) (Vector3 x y z) =
     Vector3 (a11 * x + a12 * y + a13 * z)
             (a21 * x + a22 * y + a23 * z)
             (a31 * x + a32 * y + a33 * z)"

fun multiply3 :: "matrix3 \<Rightarrow> matrix3 \<Rightarrow> matrix3" where
  "multiply3 (Matrix3 a11 a12 a13  a21 a22 a23  a31 a32 a33)
             (Matrix3 b11 b12 b13  b21 b22 b23  b31 b32 b33) =
     Matrix3 (a11 * b11 + a12 * b21 + a13 * b31)
             (a11 * b12 + a12 * b22 + a13 * b32)
             (a11 * b13 + a12 * b23 + a13 * b33)
             (a21 * b11 + a22 * b21 + a23 * b31)
             (a21 * b12 + a22 * b22 + a23 * b32)
             (a21 * b13 + a22 * b23 + a23 * b33)
             (a31 * b11 + a32 * b21 + a33 * b31)
             (a31 * b12 + a32 * b22 + a33 * b32)
             (a31 * b13 + a32 * b23 + a33 * b33)"

fun determinant3 :: "matrix3 \<Rightarrow> real" where
  "determinant3 (Matrix3 n11 n12 n13  n21 n22 n23  n31 n32 n33) =
     n11 * (n33 * n22 - n32 * n23) + n21 * (n32 * n13 - n33 * n12)
       + n31 * (n23 * n12 - n22 * n13)"

text \<open>
  The inverse by cofactors; for a singular matrix three.js stores zeros everywhere.
\<close>

fun invert3 :: "matrix3 \<Rightarrow> matrix3" where
  "invert3 (Matrix3 n11 n12 n13  n21 n22 n23  n31 n32 n33) =
     (let t11 = n33 * n22 - n32 * n23;
          t12 = n32 * n13 - n33 * n12;
          t13 = n23 * n12 - n22 * n13;
          det = n11 * t11 + n21 * t12 + n31 * t13
      in if det = 0 then Matrix3 0 0 0  0 0 0  0 0 0
         else
           let detInv = 1 / det
           in Matrix3 (t11 * detInv) (t12 * detInv) (t13 * detInv)
                      ((n31 * n23 - n33 * n21) * detInv)
                      ((n33 * n11 - n31 * n13) * detInv)
                      ((n21 * n13 - n23 * n11) * detInv)
                      ((n32 * n21 - n31 * n22) * detInv)
                      ((n31 * n12 - n32 * n11) * detInv)
                      ((n22 * n11 - n21 * n12) * detInv))"

text \<open>
  A transformation matrix (\<^verbatim>\<open>Matrix4\<close>) as its upper left 3 by 3 block and its
  translation column. The fourth row is \<open>(0, 0, 0, 1)\<close> in every matrix the effects build:
  \<^verbatim>\<open>compose\<close> writes that row, and products and inverses keep it. No object is ever
  scaled, so the block is the rotation of the object.
\<close>

datatype matrix4 = Matrix4 (basis: matrix3) (origin: vector3)

fun multiplyMatrices :: "matrix4 \<Rightarrow> matrix4 \<Rightarrow> matrix4" where
  "multiplyMatrices (Matrix4 A a) (Matrix4 B b) =
     Matrix4 (multiply3 A B) (addVectors (applyMatrix3 A b) a)"

fun invert :: "matrix4 \<Rightarrow> matrix4" where
  "invert (Matrix4 A a) = Matrix4 (invert3 A) (negateVector (applyMatrix3 (invert3 A) a))"

subsection \<open>Euler angles\<close>

text \<open>
  The Euler angles of an object, \<^verbatim>\<open>rotation.x\<close>, \<^verbatim>\<open>rotation.y\<close> and
  \<^verbatim>\<open>rotation.z\<close>. Their order is the default \<^verbatim>\<open>'XYZ'\<close>, which the source never
  changes.
\<close>

record euler =
  eulerX :: real
  eulerY :: real
  eulerZ :: real

definition zeroEuler :: euler where
  "zeroEuler = \<lparr> eulerX = 0, eulerY = 0, eulerZ = 0 \<rparr>"

text \<open>\<^verbatim>\<open>Matrix4.makeRotationFromEuler\<close>, the branch of the order \<^verbatim>\<open>'XYZ'\<close>.\<close>

definition makeRotationFromEuler :: "euler \<Rightarrow> matrix3" where
  "makeRotationFromEuler e =
     (let a = cos (eulerX e); b = sin (eulerX e);
          c = cos (eulerY e); d = sin (eulerY e);
          e' = cos (eulerZ e); f = sin (eulerZ e);
          ae = a * e'; af = a * f; be = b * e'; bf = b * f
      in Matrix3 (c * e')        (- c * f)       d
                 (af + be * d)   (ae - bf * d)   (- b * c)
                 (bf - ae * d)   (be + af * d)   (a * c))"

text \<open>The rotations about one axis: \<^verbatim>\<open>makeRotationX\<close>, \<^verbatim>\<open>makeRotationY\<close>, \<^verbatim>\<open>makeRotationZ\<close>.\<close>

definition makeRotationX :: "real \<Rightarrow> matrix3" where
  "makeRotationX theta = Matrix3 1 0 0  0 (cos theta) (- sin theta)  0 (sin theta) (cos theta)"

definition makeRotationY :: "real \<Rightarrow> matrix3" where
  "makeRotationY theta = Matrix3 (cos theta) 0 (sin theta)  0 1 0  (- sin theta) 0 (cos theta)"

definition makeRotationZ :: "real \<Rightarrow> matrix3" where
  "makeRotationZ theta = Matrix3 (cos theta) (- sin theta) 0  (sin theta) (cos theta) 0  0 0 1"

subsection \<open>Objects\<close>

text \<open>
  An \<^verbatim>\<open>Object3D\<close>: its identifier, its position and rotation relative to its parent,
  and its place in the graph. three.js keeps the rotation twice, as Euler angles and as a
  quaternion, and keeps the two in step; the model keeps the rotation they denote, as a
  matrix. The scale is \<open>1\<close> throughout and is left out. Parents and children are named by
  identifier.
\<close>

record object3D =
  ident :: nat
  position :: vector3
  orientation :: matrix3
  parent :: "nat option"
  children :: "nat list"

record cylinderGeometry =
  radiusTop :: real
  radiusBottom :: real
  height :: real
  radialSegments :: nat

record meshPhongMaterial =
  color :: nat
  transparent :: bool
  opacity :: real

record mesh = object3D +
  geometry :: cylinderGeometry
  material :: meshPhongMaterial

definition newObject3D :: "nat \<Rightarrow> object3D" where
  "newObject3D n =
     \<lparr> ident = n, position = Vector3 0 0 0, orientation = identity3,
       parent = None, children = [] \<rparr>"

definition newMesh :: "nat \<Rightarrow> cylinderGeometry \<Rightarrow> meshPhongMaterial \<Rightarrow> mesh" where
  "newMesh n g mat =
     \<lparr> ident = n, position = Vector3 0 0 0, orientation = identity3,
       parent = None, children = [], geometry = g, material = mat \<rparr>"

text \<open>\<^verbatim>\<open>updateMatrix\<close>: the local matrix composed from position and rotation.\<close>

definition updateMatrix :: "'a object3D_scheme \<Rightarrow> matrix4" where
  "updateMatrix obj = Matrix4 (orientation obj) (position obj)"

text \<open>
  \<^verbatim>\<open>updateWorldMatrix(true, false)\<close>: the local matrix for an object without parent,
  the parent's world matrix times the local matrix otherwise. The caller names the
  parent.
\<close>

definition matrixWorldOfRoot :: "'a object3D_scheme \<Rightarrow> matrix4" where
  "matrixWorldOfRoot obj = updateMatrix obj"

definition matrixWorldUnder :: "matrix4 \<Rightarrow> 'a object3D_scheme \<Rightarrow> matrix4" where
  "matrixWorldUnder parentWorld obj = multiplyMatrices parentWorld (updateMatrix obj)"

text \<open>
  \<^verbatim>\<open>applyMatrix4\<close>: premultiply the local matrix and decompose the product into
  position and rotation again.
\<close>

definition applyMatrix4 :: "matrix4 \<Rightarrow> 'a object3D_scheme \<Rightarrow> 'a object3D_scheme" where
  "applyMatrix4 m1 obj =
     (let product = multiplyMatrices m1 (updateMatrix obj)
      in obj\<lparr> position := origin product, orientation := basis product \<rparr>)"

text \<open>
  \<^verbatim>\<open>remove\<close> takes the first occurrence of the child out of the children
  (\<^verbatim>\<open>indexOf\<close> and \<^verbatim>\<open>splice\<close>). \<^verbatim>\<open>add\<close> appends the child and makes this object
  its parent; taking the child away from its previous parent is written at the call, in
  \<open>attach\<close>, where that parent is at hand.
\<close>

definition remove :: "'a object3D_scheme \<Rightarrow> 'b object3D_scheme \<Rightarrow> 'a object3D_scheme" where
  "remove this obj = this\<lparr> children := remove1 (ident obj) (children this) \<rparr>"

definition add ::
  "'a object3D_scheme \<Rightarrow> 'b object3D_scheme \<Rightarrow> 'a object3D_scheme \<times> 'b object3D_scheme" where
  "add this obj =
     (this\<lparr> children := children this @ [ident obj] \<rparr>, obj\<lparr> parent := Some (ident this) \<rparr>)"

text \<open>
  \<^verbatim>\<open>this.attach(object)\<close> makes the object a child of \<open>this\<close> and keeps its world
  transform: the local matrix is premultiplied by the inverse of the world matrix of
  \<open>this\<close> times the world matrix of the object's present parent. The result is the new
  parent, the previous parent and the object.
\<close>

definition attach ::
  "matrix4 \<Rightarrow> 'a object3D_scheme \<Rightarrow> matrix4 \<Rightarrow> 'b object3D_scheme \<Rightarrow> 'c object3D_scheme
     \<Rightarrow> 'a object3D_scheme \<times> 'b object3D_scheme \<times> 'c object3D_scheme" where
  "attach thisWorld this parentWorld oldParent obj =
     (let m1 = multiplyMatrices (invert thisWorld) parentWorld;
          obj1 = applyMatrix4 m1 obj;
          oldParent1 = remove oldParent obj1;
          (this1, obj2) = add this obj1
      in (this1, oldParent1, obj2))"

text \<open>
  Assigning to one Euler angle of an object: the angle is stored and the rotation of the
  object is recomputed from the three angles.
\<close>

definition setRotation :: "euler \<Rightarrow> 'a object3D_scheme \<Rightarrow> 'a object3D_scheme" where
  "setRotation e obj = obj\<lparr> orientation := makeRotationFromEuler e \<rparr>"

section \<open>The component\<close>

text \<open>
  The references of the component that the effects read and write, and the counter
  three.js numbers new objects with.
\<close>

record state =
  nextId :: nat
  sceneRef :: "object3D option"
  proximalBoneRef :: "mesh option"
  distalBoneRef :: "mesh option"

definition initialState :: state where
  "initialState =
     \<lparr> nextId = 0, sceneRef = None, proximalBoneRef = None, distalBoneRef = None \<rparr>"

text \<open>
  \<^verbatim>\<open>updateBoneGeometries(scene)\<close> with the measurement set of the current render.
  The scene argument is the object \<^verbatim>\<open>sceneRef.current\<close> refers to, so the changed
  scene is returned for the caller to store.
\<close>

definition updateBoneGeometries ::
  "real measurements \<Rightarrow> object3D \<Rightarrow> state \<Rightarrow> object3D \<times> state" where
  "updateBoneGeometries m scene s =
     (let radius = 15;
          scene1 = (case proximalBoneRef s of None \<Rightarrow> scene | Some old \<Rightarrow> remove scene old);
          scene2 = (case distalBoneRef s of None \<Rightarrow> scene1 | Some old \<Rightarrow> remove scene1 old);
          proximalGeometry =
            \<lparr> radiusTop = radius, radiusBottom = radius * 0.9,
              height = fracturePosition m, radialSegments = 32 \<rparr>;
          proximalMaterial = \<lparr> color = 0x90ee90, transparent = True, opacity = 0.5 \<rparr>;
          proximalBone = newMesh (nextId s) proximalGeometry proximalMaterial;
          proximalBone1 =
            proximalBone\<lparr> position := setY (position proximalBone) ((- fracturePosition m) / 2) \<rparr>;
          (scene3, proximalBone2) = add scene2 proximalBone1;
          distalLength = fractureLength m - fracturePosition m;
          distalGeometry =
            \<lparr> radiusTop = radius * 0.9, radiusBottom = radius * 0.8,
              height = distalLength, radialSegments = 32 \<rparr>;
          distalMaterial = \<lparr> color = 0xffb6c1, transparent = True, opacity = 0.5 \<rparr>;
          distalBone = newMesh (nextId s + 1) distalGeometry distalMaterial;
          distalBone1 =
            distalBone\<lparr> position :=
              setY (position distalBone) (- fracturePosition m - distalLength / 2) \<rparr>;
          (scene4, distalBone2) = add scene3 distalBone1
      in (scene4,
          s\<lparr> nextId := nextId s + 2,
             proximalBoneRef := Some proximalBone2,
             distalBoneRef := Some distalBone2 \<rparr>))"

text \<open>
  The effect that runs once after mounting. With a container it builds the scene (lights,
  grid and axes are children of the scene; the camera and the renderer are not), stores
  it and creates the bones from the initial measurement set, the one of the first render.
  The render loop only reads the scene and is left out.
\<close>

definition mountEffect :: "bool \<Rightarrow> state \<Rightarrow> state" where
  "mountEffect containerPresent s =
     (if \<not> containerPresent then s
      else
        let scene = newObject3D (nextId s);
            camera = (newObject3D (nextId s + 1))\<lparr> position := Vector3 0 0 500 \<rparr>;
            ambientLight = newObject3D (nextId s + 2);
            (scene1, ambientLight1) = add scene ambientLight;
            directionalLight = (newObject3D (nextId s + 3))\<lparr> position := Vector3 0 1 0 \<rparr>;
            (scene2, directionalLight1) = add scene1 directionalLight;
            gridHelper = setRotation (zeroEuler\<lparr> eulerX := pi / 2 \<rparr>) (newObject3D (nextId s + 4));
            (scene3, gridHelper1) = add scene2 gridHelper;
            axesHelper = newObject3D (nextId s + 5);
            (scene4, axesHelper1) = add scene3 axesHelper;
            s1 = s\<lparr> nextId := nextId s + 6, sceneRef := Some scene4 \<rparr>;
            (scene5, s2) = updateBoneGeometries initialMeasurements scene4 s1
        in s2\<lparr> sceneRef := Some scene5 \<rparr>)"

definition toRad :: "real \<Rightarrow> real" where
  "toRad deg = (deg * pi) / 180"

text \<open>
  The effect that runs after every render with a changed measurement set. It returns at
  once unless the scene and a distal bone exist. Otherwise it rebuilds both bones, puts a
  pivot at the fracture, resets the distal bone, attaches it to the pivot, assigns the
  three Euler angles of the pivot, adds the displacements to the local position of the
  distal bone, attaches the bone to the scene again and removes the pivot.
  \<^verbatim>\<open>updateBoneGeometries\<close> always stores a distal bone, so the last \<open>None\<close> branch
  below is never taken (lemma \<open>updateBoneGeometries_distal\<close>).
\<close>

definition measurementsEffect :: "real measurements \<Rightarrow> state \<Rightarrow> state" where
  "measurementsEffect m s =
     (case sceneRef s of
        None \<Rightarrow> s
      | Some scene \<Rightarrow>
     (case distalBoneRef s of
        None \<Rightarrow> s
      | Some previousBone \<Rightarrow>
     (let (scene1, s1) = updateBoneGeometries m scene s
      in case distalBoneRef s1 of
           None \<Rightarrow> s1\<lparr> sceneRef := Some scene1 \<rparr>
         | Some distalBone \<Rightarrow>
     (let pivot = newObject3D (nextId s1);
          pivot1 = pivot\<lparr> position := setY (position pivot) (- fracturePosition m) \<rparr>;
          (scene2, pivot2) = add scene1 pivot1;

          distalLength = fractureLength m - fracturePosition m;
          distalBone1 =
            distalBone\<lparr> position := Vector3 0 (- fracturePosition m - distalLength / 2) 0 \<rparr>;
          distalBone2 = setRotation zeroEuler distalBone1;

          (pivot3, scene3, distalBone3) =
            attach (matrixWorldUnder (matrixWorldOfRoot scene2) pivot2) pivot2
                   (matrixWorldOfRoot scene2) scene2 distalBone2;

          rotation1 = zeroEuler\<lparr> eulerZ := toRad (valgusAngulation m) \<rparr>;
          pivot4 = setRotation rotation1 pivot3;
          rotation2 = rotation1\<lparr> eulerX := toRad (anteversionAngulation m) \<rparr>;
          pivot5 = setRotation rotation2 pivot4;
          rotation3 = rotation2\<lparr> eulerY := toRad (rotationalAngulation m) \<rparr>;
          pivot6 = setRotation rotation3 pivot5;

          distalBone4 =
            distalBone3\<lparr> position :=
              setX (position distalBone3) (vx (position distalBone3) + medialDisplacement m) \<rparr>;
          distalBone5 =
            distalBone4\<lparr> position :=
              setZ (position distalBone4) (vz (position distalBone4) + anteriorDisplacement m) \<rparr>;
          distalBone6 =
            distalBone5\<lparr> position :=
              setY (position distalBone5) (vy (position distalBone5) - proximalDisplacement m) \<rparr>;

          (scene4, pivot7, distalBone7) =
            attach (matrixWorldOfRoot scene3) scene3
                   (matrixWorldUnder (matrixWorldOfRoot scene3) pivot6) pivot6 distalBone6;
          scene5 = remove scene4 pivot7
      in s1\<lparr> nextId := nextId s1 + 1,
              sceneRef := Some scene5,
              distalBoneRef := Some distalBone7 \<rparr>))))"

text \<open>
  A run of the component: mounting, then one invocation of the second effect for each
  measurement set of the list, in order.
\<close>

definition mounted :: state where
  "mounted = mountEffect True initialState"

definition run :: "real measurements list \<Rightarrow> state" where
  "run ms = foldl (\<lambda>s m. measurementsEffect m s) mounted ms"

subsection \<open>Reading poses\<close>

text \<open>
  The world matrix of a bone that is a child of the scene: rotation and position in
  world coordinates. \<open>None\<close> when there is no scene, no such bone, or the bone is not a
  child of the scene.
\<close>

definition worldPose :: "state \<Rightarrow> mesh option \<Rightarrow> matrix4 option" where
  "worldPose s boneRef =
     (case sceneRef s of
        None \<Rightarrow> None
      | Some scene \<Rightarrow>
          (case boneRef of
             None \<Rightarrow> None
           | Some bone \<Rightarrow>
               if parent bone = Some (ident scene) \<and> ident bone \<in> set (children scene)
               then Some (matrixWorldUnder (matrixWorldOfRoot scene) bone)
               else None))"

definition distalWorldPose :: "state \<Rightarrow> matrix4 option" where
  "distalWorldPose s = worldPose s (distalBoneRef s)"

definition proximalWorldPose :: "state \<Rightarrow> matrix4 option" where
  "proximalWorldPose s = worldPose s (proximalBoneRef s)"

text \<open>
  The states in which the second effect does its work: a scene and a distal bone exist.
  The scene is where \<^verbatim>\<open>new THREE.Scene()\<close> puts it, at the origin and unrotated;
  neither effect ever moves it.
\<close>

definition sceneReady :: "state \<Rightarrow> bool" where
  "sceneReady s =
     (case sceneRef s of
        None \<Rightarrow> False
      | Some scene \<Rightarrow>
          position scene = Vector3 0 0 0 \<and> orientation scene = identity3
          \<and> distalBoneRef s \<noteq> None)"

subsection \<open>Closed forms\<close>

text \<open>
  The rotation the pivot ends up with, and the world position the distal bone ends up
  at: the pivot position plus the rotated local position of the bone, which is the
  anatomical offset below the fracture plus the three displacements.
\<close>

definition pivotRotation :: "real measurements \<Rightarrow> matrix3" where
  "pivotRotation m =
     makeRotationFromEuler
       \<lparr> eulerX = toRad (anteversionAngulation m),
         eulerY = toRad (rotationalAngulation m),
         eulerZ = toRad (valgusAngulation m) \<rparr>"

definition distalLocalPosition :: "real measurements \<Rightarrow> vector3" where
  "distalLocalPosition m =
     Vector3 (medialDisplacement m)
             (- ((fractureLength m - fracturePosition m) / 2) - proximalDisplacement m)
             (anteriorDisplacement m)"

definition distalWorldPosition :: "real measurements \<Rightarrow> vector3" where
  "distalWorldPosition m =
     addVectors (applyMatrix3 (pivotRotation m) (distalLocalPosition m))
                (Vector3 0 (- fracturePosition m) 0)"

subsection \<open>The composition order the specification names\<close>

text \<open>
  The specification describes the rotation of the pivot as three rotations about single
  axes composed in the order Z (valgus), X (anteversion), Y (long axis). Read as
  rotations about the fixed axes of the parent, performed in that order, the matrix is
  \<open>Ry \<cdot> Rx \<cdot> Rz\<close>; read as rotations about the axes of the frame as it turns (the
  Euler order \<^verbatim>\<open>'ZXY'\<close>), it is \<open>Rz \<cdot> Rx \<cdot> Ry\<close>. Both are written down here from
  the specification's words, to be compared with what the effect computes.
\<close>

definition specRotationZXYFixedAxes :: "real measurements \<Rightarrow> matrix3" where
  "specRotationZXYFixedAxes m =
     multiply3 (makeRotationY (toRad (rotationalAngulation m)))
       (multiply3 (makeRotationX (toRad (anteversionAngulation m)))
                  (makeRotationZ (toRad (valgusAngulation m))))"

definition specRotationZXYMovingAxes :: "real measurements \<Rightarrow> matrix3" where
  "specRotationZXYMovingAxes m =
     multiply3 (makeRotationZ (toRad (valgusAngulation m)))
       (multiply3 (makeRotationX (toRad (anteversionAngulation m)))
                  (makeRotationY (toRad (rotationalAngulation m))))"

text \<open>Measurement sets used as concrete inputs below.\<close>

definition allAngulations90 :: "real measurements" where
  "allAngulations90 =
     initialMeasurements\<lparr> valgusAngulation := 90, anteversionAngulation := 90,
                          rotationalAngulation := 90 \<rparr>"

definition medialTen :: "real measurements" where
  "medialTen = initialMeasurements\<lparr> medialDisplacement := 10 \<rparr>"

definition rotatedAnteriorTen :: "real measurements" where
  "rotatedAnteriorTen =
     initialMeasurements\<lparr> rotationalAngulation := 90, anteriorDisplacement := 10 \<rparr>"

definition transpose3 :: "matrix3 \<Rightarrow> matrix3" where
  "transpose3 M =
     (case M of Matrix3 a11 a12 a13  a21 a22 a23  a31 a32 a33 \<Rightarrow>
        Matrix3 a11 a21 a31  a12 a22 a32  a13 a23 a33)"


section \<open>Properties of the measurement form\<close>

lemma getField_setField: "getField k (setField k v m) = v"
  by (cases k) simp_all

lemma logicalOr_zero_not_NaN: "logicalOr a (Num 0) \<noteq> NaN"
  by (cases a) (simp_all add: logicalOr_def)

lemma setField_noFieldIsNaN:
  "noFieldIsNaN m \<Longrightarrow> v \<noteq> NaN \<Longrightarrow> noFieldIsNaN (setField k v m)"
  by (cases k) (simp_all add: noFieldIsNaN_def)

lemma handleMeasurementChange_noFieldIsNaN:
  "noFieldIsNaN m \<Longrightarrow> noFieldIsNaN (handleMeasurementChange k v m)"
  unfolding handleMeasurementChange_def
  by (rule setField_noFieldIsNaN) (simp_all add: logicalOr_zero_not_NaN)

lemma applyEdits_noFieldIsNaN:
  "noFieldIsNaN m \<Longrightarrow> noFieldIsNaN (applyEdits edits m)"
proof (induction edits arbitrary: m)
  case Nil
  then show ?case by (simp add: applyEdits_def)
next
  case (Cons e edits)
  obtain k v where e: "e = (k, v)" by (cases e)
  have "noFieldIsNaN (handleMeasurementChange k v m)"
    using Cons.prems by (rule handleMeasurementChange_noFieldIsNaN)
  then have "noFieldIsNaN (applyEdits edits (handleMeasurementChange k v m))"
    by (rule Cons.IH)
  then show ?case by (simp add: applyEdits_def e)
qed

text \<open>
  C7. Whatever the field, an edit whose text \<^verbatim>\<open>parseFloat\<close> turns into
  \<^verbatim>\<open>NaN\<close> stores exactly \<open>0\<close> in that field of the next measurement set: the
  handler has no rejecting branch, \<^verbatim>\<open>NaN || 0\<close> is \<open>0\<close>.
\<close>

theorem handleMeasurementChange_unparseable_is_zero:
  "parseFloat v = NaN \<Longrightarrow> getField k (handleMeasurementChange k v prev) = Num 0"
  by (simp add: handleMeasurementChange_def getField_setField logicalOr_def)

theorem handleMeasurementChange_unparseable_is_zero_witness:
  "parseFloat [] = NaN
   \<and> getField ValgusAngulation (handleMeasurementChange ValgusAngulation [] initialFormState)
       = Num 0"
proof -
  have h: "parseFloat [] = NaN" by (simp add: parseFloat_def)
  show ?thesis
    using h handleMeasurementChange_unparseable_is_zero [OF h, of ValgusAngulation initialFormState]
    by simp
qed

text \<open>
  C10. From the initial form state, no sequence of edits through
  \<^verbatim>\<open>handleMeasurementChange\<close> leaves \<^verbatim>\<open>NaN\<close> in any field: what is stored is
  \<^verbatim>\<open>parseFloat(value) || 0\<close>, and \<^verbatim>\<open>NaN\<close> is falsy.
\<close>

theorem measurements_never_NaN: "noFieldIsNaN (applyEdits edits initialFormState)"
  by (rule applyEdits_noFieldIsNaN) (simp add: noFieldIsNaN_def initialFormState_def)

section \<open>Properties of the matrices\<close>

lemma multiply3_identity_left: "multiply3 identity3 M = M"
  by (cases M) (simp add: identity3_def)

lemma multiply3_identity_right: "multiply3 M identity3 = M"
  by (cases M) (simp add: identity3_def)

lemma applyMatrix3_identity: "applyMatrix3 identity3 v = v"
  by (cases v) (simp add: identity3_def)

lemma addVectors_zero: "addVectors (Vector3 0 0 0) v = v" "addVectors v (Vector3 0 0 0) = v"
  by (cases v, simp)+

lemma cos_sin_square: "cos (x::real) * cos x + sin x * sin x = 1"
  using sin_cos_squared_add2 [of x] by (simp add: power2_eq_square)

lemma euler_entries_orthogonal:
  fixes a b c d e f :: real
  assumes "a * a + b * b = 1" "c * c + d * d = 1" "e * e + f * f = 1"
  shows "multiply3
           (Matrix3 (c * e) (- c * f) d
                    (a * f + b * e * d) (a * e - b * f * d) (- b * c)
                    (b * f - a * e * d) (b * e + a * f * d) (a * c))
           (transpose3
             (Matrix3 (c * e) (- c * f) d
                      (a * f + b * e * d) (a * e - b * f * d) (- b * c)
                      (b * f - a * e * d) (b * e + a * f * d) (a * c)))
         = identity3"
  using assms
  apply (simp add: transpose3_def identity3_def)
  apply (intro conjI)
          apply algebra+
  done

lemma euler_entries_determinant:
  fixes a b c d e f :: real
  assumes "a * a + b * b = 1" "c * c + d * d = 1" "e * e + f * f = 1"
  shows "determinant3
           (Matrix3 (c * e) (- c * f) d
                    (a * f + b * e * d) (a * e - b * f * d) (- b * c)
                    (b * f - a * e * d) (b * e + a * f * d) (a * c))
         = 1"
  using assms
  apply simp
  apply algebra
  done

text \<open>
  The matrix of Euler angles is a rotation: orthogonal, with determinant \<open>1\<close>. So the
  matrices that \<open>applyMatrix4\<close> decomposes carry no scale, and reading their upper left
  block as the rotation of the object loses nothing.
\<close>

lemma makeRotationFromEuler_rotation:
  "multiply3 (makeRotationFromEuler e) (transpose3 (makeRotationFromEuler e)) = identity3
   \<and> determinant3 (makeRotationFromEuler e) = 1"
  unfolding makeRotationFromEuler_def Let_def
  using euler_entries_orthogonal [OF cos_sin_square cos_sin_square cos_sin_square]
        euler_entries_determinant [OF cos_sin_square cos_sin_square cos_sin_square]
  by blast

text \<open>The Euler order \<^verbatim>\<open>'XYZ'\<close> is the product \<open>Rx \<cdot> Ry \<cdot> Rz\<close>.\<close>

lemma makeRotationFromEuler_XYZ:
  "makeRotationFromEuler \<lparr> eulerX = x, eulerY = y, eulerZ = z \<rparr>
     = multiply3 (makeRotationX x) (multiply3 (makeRotationY y) (makeRotationZ z))"
  by (simp add: makeRotationFromEuler_def makeRotationX_def makeRotationY_def
        makeRotationZ_def Let_def algebra_simps)

lemma makeRotationFromEuler_zero: "makeRotationFromEuler zeroEuler = identity3"
  by (simp add: makeRotationFromEuler_def zeroEuler_def identity3_def)

lemma toRad_values: "toRad 0 = 0" "toRad 90 = pi / 2"
  by (simp_all add: toRad_def)

section \<open>Properties of \<open>updateBoneGeometries\<close>\<close>

lemmas updateBoneGeometries_unfold =
  updateBoneGeometries_def newMesh_def add_def remove_def Let_def

lemma updateBoneGeometries_scene:
  "position (fst (updateBoneGeometries m scene s)) = position scene"
  "orientation (fst (updateBoneGeometries m scene s)) = orientation scene"
  "ident (fst (updateBoneGeometries m scene s)) = ident scene"
  "parent (fst (updateBoneGeometries m scene s)) = parent scene"
  by (simp_all add: updateBoneGeometries_unfold split: option.splits)

lemma updateBoneGeometries_children:
  "nextId s \<in> set (children (fst (updateBoneGeometries m scene s)))"
  "Suc (nextId s) \<in> set (children (fst (updateBoneGeometries m scene s)))"
  by (simp_all add: updateBoneGeometries_unfold split: option.splits)

lemma updateBoneGeometries_state:
  "nextId (snd (updateBoneGeometries m scene s)) = nextId s + 2"
  "sceneRef (snd (updateBoneGeometries m scene s)) = sceneRef s"
  by (simp_all add: updateBoneGeometries_unfold split: option.splits)

lemma updateBoneGeometries_proximal:
  "proximalBoneRef (snd (updateBoneGeometries m scene s)) =
     Some \<lparr> ident = nextId s, position = Vector3 0 (- fracturePosition m / 2) 0,
            orientation = identity3, parent = Some (ident scene), children = [],
            geometry = \<lparr> radiusTop = 15, radiusBottom = 15 * 0.9,
                         height = fracturePosition m, radialSegments = 32 \<rparr>,
            material = \<lparr> color = 0x90ee90, transparent = True, opacity = 0.5 \<rparr> \<rparr>"
  by (simp add: updateBoneGeometries_unfold split: option.splits)

lemma updateBoneGeometries_distal:
  "distalBoneRef (snd (updateBoneGeometries m scene s)) =
     Some \<lparr> ident = nextId s + 1,
            position =
              Vector3 0 (- fracturePosition m - (fractureLength m - fracturePosition m) / 2) 0,
            orientation = identity3, parent = Some (ident scene), children = [],
            geometry = \<lparr> radiusTop = 15 * 0.9, radiusBottom = 15 * 0.8,
                         height = fractureLength m - fracturePosition m,
                         radialSegments = 32 \<rparr>,
            material = \<lparr> color = 0xffb6c1, transparent = True, opacity = 0.5 \<rparr> \<rparr>"
  by (simp add: updateBoneGeometries_unfold split: option.splits)

text \<open>
  C5. \<^verbatim>\<open>updateBoneGeometries\<close> builds the proximal frustum with length
  \<open>fracturePosition\<close>, radii \<open>R = 15\<close> and \<open>0.9 R\<close>, centred at
  \<open>y = - fracturePosition / 2\<close>, and the distal frustum with length
  \<open>fractureLength - fracturePosition\<close>, radii \<open>0.9 R\<close> and \<open>0.8 R\<close>, centred at
  \<open>y = - (fracturePosition + distalLength / 2)\<close>. For lengths 300 and 150 both frusta are
  150 long; for 300 and 300 the distal one has length 0.
\<close>

theorem updateBoneGeometries_frusta:
  "(\<exists>p d. proximalBoneRef (snd (updateBoneGeometries m scene s)) = Some p
        \<and> distalBoneRef (snd (updateBoneGeometries m scene s)) = Some d
        \<and> height (geometry p) = fracturePosition m
        \<and> radiusTop (geometry p) = 15 \<and> radiusBottom (geometry p) = 0.9 * 15
        \<and> position p = Vector3 0 (- (fracturePosition m / 2)) 0
        \<and> height (geometry d) = fractureLength m - fracturePosition m
        \<and> radiusTop (geometry d) = 0.9 * 15 \<and> radiusBottom (geometry d) = 0.8 * 15
        \<and> position d =
            Vector3 0 (- (fracturePosition m + (fractureLength m - fracturePosition m) / 2)) 0)
   \<and> map_option (\<lambda>p. height (geometry p))
        (proximalBoneRef (snd (updateBoneGeometries initialMeasurements scene s))) = Some 150
   \<and> map_option (\<lambda>d. height (geometry d))
        (distalBoneRef (snd (updateBoneGeometries initialMeasurements scene s))) = Some 150
   \<and> map_option (\<lambda>d. height (geometry d))
        (distalBoneRef
          (snd (updateBoneGeometries (initialMeasurements\<lparr> fracturePosition := 300 \<rparr>) scene s)))
       = Some 0"
  by (simp add: updateBoneGeometries_proximal updateBoneGeometries_distal
        initialMeasurements_def)

text \<open>
  C6. \<^verbatim>\<open>updateBoneGeometries\<close> has no failing branch: for all lengths it stores a
  distal mesh whose geometry has the height \<open>fractureLength - fracturePosition\<close>, which
  is negative exactly when the fracture position exceeds the length; for the lengths 100
  and 150 the height is \<open>-50\<close>.
\<close>

theorem updateBoneGeometries_total_negative_length:
  "(\<exists>d. distalBoneRef (snd (updateBoneGeometries m scene s)) = Some d
        \<and> height (geometry d) = fractureLength m - fracturePosition m
        \<and> (height (geometry d) < 0) = (fractureLength m < fracturePosition m))
   \<and> map_option (\<lambda>d. height (geometry d))
        (distalBoneRef
          (snd (updateBoneGeometries
                 (initialMeasurements\<lparr> fractureLength := 100, fracturePosition := 150 \<rparr>)
                 scene s)))
       = Some (- 50)"
  by (simp add: updateBoneGeometries_distal initialMeasurements_def)

section \<open>Properties of the effects\<close>

lemmas effect_unfold =
  newObject3D_def add_def remove_def attach_def applyMatrix4_def
  updateMatrix_def matrixWorldOfRoot_def matrixWorldUnder_def
  setRotation_def zeroEuler_def Let_def identity3_def split_def

lemma sceneReadyE:
  assumes "sceneReady s"
  obtains scene old where "sceneRef s = Some scene" "distalBoneRef s = Some old"
    "position scene = Vector3 0 0 0" "orientation scene = identity3"
  using assms by (auto simp: sceneReady_def split: option.splits)

lemma measurementsEffect_distal:
  assumes "sceneRef s = Some scene" "distalBoneRef s = Some old"
    "position scene = Vector3 0 0 0" "orientation scene = identity3"
  shows "distalBoneRef (measurementsEffect m s) =
     Some \<lparr> ident = nextId s + 1,
            position = distalWorldPosition m,
            orientation = pivotRotation m, parent = Some (ident scene), children = [],
            geometry = \<lparr> radiusTop = 15 * 0.9, radiusBottom = 15 * 0.8,
                         height = fractureLength m - fracturePosition m,
                         radialSegments = 32 \<rparr>,
            material = \<lparr> color = 0xffb6c1, transparent = True, opacity = 0.5 \<rparr> \<rparr>"
  using assms
  apply (simp add: measurementsEffect_def split_def updateBoneGeometries_distal
      updateBoneGeometries_scene updateBoneGeometries_state)
  apply (simp add: effect_unfold updateBoneGeometries_scene distalWorldPosition_def
      distalLocalPosition_def pivotRotation_def makeRotationFromEuler_def)
  done

lemma measurementsEffect_proximal:
  assumes "sceneRef s = Some scene" "distalBoneRef s = Some old"
  shows "proximalBoneRef (measurementsEffect m s)
           = proximalBoneRef (snd (updateBoneGeometries m scene s))"
  using assms
  by (simp add: measurementsEffect_def split_def updateBoneGeometries_distal Let_def
      attach_def add_def)

lemma measurementsEffect_scene:
  assumes "sceneRef s = Some scene" "distalBoneRef s = Some old"
  shows "\<exists>scene'. sceneRef (measurementsEffect m s) = Some scene'
      \<and> ident scene' = ident scene \<and> position scene' = position scene
      \<and> orientation scene' = orientation scene
      \<and> nextId s \<in> set (children scene') \<and> Suc (nextId s) \<in> set (children scene')"
  using assms
  apply (simp add: measurementsEffect_def split_def updateBoneGeometries_distal
      updateBoneGeometries_state)
  apply (simp add: effect_unfold updateBoneGeometries_scene updateBoneGeometries_children
      updateBoneGeometries_state)
  done

lemma measurementsEffect_sceneReady:
  assumes "sceneReady s"
  shows "sceneReady (measurementsEffect m s)"
proof -
  from assms obtain scene old where h:
    "sceneRef s = Some scene" "distalBoneRef s = Some old"
    "position scene = Vector3 0 0 0" "orientation scene = identity3"
    by (rule sceneReadyE)
  from measurementsEffect_scene [OF h(1,2), of m] obtain scene' where
    "sceneRef (measurementsEffect m s) = Some scene'"
    "position scene' = position scene" "orientation scene' = orientation scene"
    by blast
  then show ?thesis
    using h measurementsEffect_distal [OF h, of m] by (simp add: sceneReady_def)
qed

lemma measurementsEffect_distalWorldPose:
  assumes "sceneReady s"
  shows "distalWorldPose (measurementsEffect m s)
           = Some (Matrix4 (pivotRotation m) (distalWorldPosition m))"
proof -
  from assms obtain scene old where h:
    "sceneRef s = Some scene" "distalBoneRef s = Some old"
    "position scene = Vector3 0 0 0" "orientation scene = identity3"
    by (rule sceneReadyE)
  from measurementsEffect_scene [OF h(1,2), of m] obtain scene' where sc:
    "sceneRef (measurementsEffect m s) = Some scene'"
    "ident scene' = ident scene"
    "position scene' = position scene" "orientation scene' = orientation scene"
    "Suc (nextId s) \<in> set (children scene')"
    by blast
  show ?thesis
    using h sc measurementsEffect_distal [OF h, of m]
    by (simp add: distalWorldPose_def worldPose_def matrixWorldUnder_def
        matrixWorldOfRoot_def updateMatrix_def multiply3_identity_left
        applyMatrix3_identity addVectors_zero)
qed

lemma measurementsEffect_proximalWorldPose:
  assumes "sceneReady s"
  shows "proximalWorldPose (measurementsEffect m s)
           = Some (Matrix4 identity3 (Vector3 0 (- fracturePosition m / 2) 0))"
proof -
  from assms obtain scene old where h:
    "sceneRef s = Some scene" "distalBoneRef s = Some old"
    "position scene = Vector3 0 0 0" "orientation scene = identity3"
    by (rule sceneReadyE)
  from measurementsEffect_scene [OF h(1,2), of m] obtain scene' where sc:
    "sceneRef (measurementsEffect m s) = Some scene'"
    "ident scene' = ident scene"
    "position scene' = position scene" "orientation scene' = orientation scene"
    "nextId s \<in> set (children scene')"
    by blast
  show ?thesis
    using h sc measurementsEffect_proximal [OF h(1,2), of m]
    by (simp add: proximalWorldPose_def worldPose_def matrixWorldUnder_def
        matrixWorldOfRoot_def updateMatrix_def multiply3_identity_left
        applyMatrix3_identity addVectors_zero updateBoneGeometries_proximal)
qed

lemma mounted_sceneReady: "sceneReady mounted"
  by (simp add: mounted_def mountEffect_def initialState_def initialMeasurements_def
      updateBoneGeometries_unfold newObject3D_def sceneReady_def split_def)

lemma run_sceneReady: "sceneReady (run ms)"
proof -
  have "sceneReady s \<Longrightarrow> sceneReady (foldl (\<lambda>s m. measurementsEffect m s) s ms)" for s
    by (induction ms arbitrary: s) (simp_all add: measurementsEffect_sceneReady)
  then show ?thesis
    unfolding run_def using mounted_sceneReady by blast
qed

section \<open>The pose of the bones after the second effect\<close>

text \<open>
  C4. With the three displacements and the three angulations all \<open>0\<close>, the distal
  bone ends at the world position \<open>(0, - (fracturePosition + distalLength / 2), 0)\<close>, where
  \<open>distalLength = fractureLength - fracturePosition\<close>, and its world rotation is the
  identity.
\<close>

theorem zero_deformity_identity:
  assumes "sceneReady s"
    and "medialDisplacement m = 0 \<and> anteriorDisplacement m = 0 \<and> proximalDisplacement m = 0
         \<and> valgusAngulation m = 0 \<and> anteversionAngulation m = 0 \<and> rotationalAngulation m = 0"
  shows "distalWorldPose (measurementsEffect m s)
           = Some (Matrix4 identity3
               (Vector3 0 (- (fracturePosition m + (fractureLength m - fracturePosition m) / 2)) 0))"
  using assms
  by (simp add: measurementsEffect_distalWorldPose distalWorldPosition_def
        distalLocalPosition_def pivotRotation_def makeRotationFromEuler_def toRad_values
        identity3_def)

theorem zero_deformity_identity_witness:
  "sceneReady mounted
   \<and> distalWorldPose (measurementsEffect initialMeasurements mounted)
       = Some (Matrix4 identity3 (Vector3 0 (- 225) 0))"
proof -
  have r: "sceneReady mounted" by (rule mounted_sceneReady)
  have z: "medialDisplacement initialMeasurements = 0
         \<and> anteriorDisplacement initialMeasurements = 0
         \<and> proximalDisplacement initialMeasurements = 0
         \<and> valgusAngulation initialMeasurements = 0
         \<and> anteversionAngulation initialMeasurements = 0
         \<and> rotationalAngulation initialMeasurements = 0"
    by (simp add: initialMeasurements_def)
  show ?thesis
    using r zero_deformity_identity [OF r z] by (simp add: initialMeasurements_def)
qed

text \<open>
  C1. The displacements are added to the local position of the distal bone while the
  rotated pivot is its parent, so in the world they are turned by the rotation of the
  pivot: for every measurement set \<open>m''\<close> the world position is the pivot position plus
  the pivot rotation applied to the local position (anatomical offset plus
  displacements). With all angulations \<open>0\<close> and a medial displacement of \<open>10\<close> the world
  \<open>x\<close> is \<open>10\<close>. With a long-axis rotation of \<open>90\<close> degrees, the other angulations \<open>0\<close>, and
  an anterior displacement of \<open>10\<close>, the anterior displacement appears on the world
  \<open>x\<close> axis and the world \<open>z\<close> holds the negated medial displacement, so nothing of it is
  left along the world \<open>z\<close> axis.
\<close>

theorem displacements_act_in_rotated_frame:
  assumes ready: "sceneReady s"
    and pure: "valgusAngulation m = 0 \<and> anteversionAngulation m = 0
               \<and> rotationalAngulation m = 0 \<and> medialDisplacement m = 10"
    and turned: "valgusAngulation m' = 0 \<and> anteversionAngulation m' = 0
               \<and> rotationalAngulation m' = 90 \<and> anteriorDisplacement m' = 10"
  shows "distalWorldPose (measurementsEffect m'' s)
           = Some (Matrix4 (pivotRotation m'')
                    (addVectors (applyMatrix3 (pivotRotation m'') (distalLocalPosition m''))
                                (Vector3 0 (- fracturePosition m'') 0)))
       \<and> map_option (\<lambda>pose. vx (origin pose)) (distalWorldPose (measurementsEffect m s))
           = Some 10
       \<and> map_option origin (distalWorldPose (measurementsEffect m' s))
           = Some (Vector3 10
                    (- (fracturePosition m' + (fractureLength m' - fracturePosition m') / 2)
                       - proximalDisplacement m')
                    (- medialDisplacement m'))"
proof (intro conjI)
  show "distalWorldPose (measurementsEffect m'' s)
           = Some (Matrix4 (pivotRotation m'')
                    (addVectors (applyMatrix3 (pivotRotation m'') (distalLocalPosition m''))
                                (Vector3 0 (- fracturePosition m'') 0)))"
    using ready by (simp add: measurementsEffect_distalWorldPose distalWorldPosition_def)
next
  show "map_option (\<lambda>pose. vx (origin pose)) (distalWorldPose (measurementsEffect m s))
          = Some 10"
    using ready pure
    by (simp add: measurementsEffect_distalWorldPose distalWorldPosition_def
        distalLocalPosition_def pivotRotation_def makeRotationFromEuler_def toRad_values)
next
  show "map_option origin (distalWorldPose (measurementsEffect m' s))
           = Some (Vector3 10
                    (- (fracturePosition m' + (fractureLength m' - fracturePosition m') / 2)
                       - proximalDisplacement m')
                    (- medialDisplacement m'))"
    using ready turned
    by (simp add: measurementsEffect_distalWorldPose distalWorldPosition_def
        distalLocalPosition_def pivotRotation_def makeRotationFromEuler_def toRad_values)
qed

theorem displacements_act_in_rotated_frame_witness:
  "sceneReady mounted
   \<and> (valgusAngulation medialTen = 0 \<and> anteversionAngulation medialTen = 0
      \<and> rotationalAngulation medialTen = 0 \<and> medialDisplacement medialTen = 10)
   \<and> (valgusAngulation rotatedAnteriorTen = 0 \<and> anteversionAngulation rotatedAnteriorTen = 0
      \<and> rotationalAngulation rotatedAnteriorTen = 90
      \<and> anteriorDisplacement rotatedAnteriorTen = 10)
   \<and> map_option (\<lambda>pose. vx (origin pose))
        (distalWorldPose (measurementsEffect medialTen mounted)) = Some 10
   \<and> map_option origin (distalWorldPose (measurementsEffect rotatedAnteriorTen mounted))
        = Some (Vector3 10 (- 225) 0)"
proof -
  have r: "sceneReady mounted" by (rule mounted_sceneReady)
  have p: "valgusAngulation medialTen = 0 \<and> anteversionAngulation medialTen = 0
      \<and> rotationalAngulation medialTen = 0 \<and> medialDisplacement medialTen = 10"
    by (simp add: medialTen_def initialMeasurements_def)
  have t: "valgusAngulation rotatedAnteriorTen = 0
      \<and> anteversionAngulation rotatedAnteriorTen = 0
      \<and> rotationalAngulation rotatedAnteriorTen = 90
      \<and> anteriorDisplacement rotatedAnteriorTen = 10"
    by (simp add: rotatedAnteriorTen_def initialMeasurements_def)
  show ?thesis
    using r p t displacements_act_in_rotated_frame [OF r p t, of initialMeasurements]
    by (simp add: rotatedAnteriorTen_def initialMeasurements_def)
qed

text \<open>
  C2, as the specification states it: the rotation of the pivot is the composition of
  the single-axis rotations in the order Z, X, Y. With all three angulations at \<open>90\<close>
  degrees the world rotation the effect gives the distal bone, which is the rotation of
  the pivot, is neither of the two readings of that order.
\<close>

theorem pivot_rotation_not_ZXY_counterexample:
  "map_option basis (distalWorldPose (measurementsEffect allAngulations90 mounted))
      \<noteq> Some (specRotationZXYFixedAxes allAngulations90)
   \<and> map_option basis (distalWorldPose (measurementsEffect allAngulations90 mounted))
      \<noteq> Some (specRotationZXYMovingAxes allAngulations90)"
  by (simp add: measurementsEffect_distalWorldPose [OF mounted_sceneReady]
      pivotRotation_def makeRotationFromEuler_def specRotationZXYFixedAxes_def
      specRotationZXYMovingAxes_def makeRotationX_def makeRotationY_def makeRotationZ_def
      allAngulations90_def initialMeasurements_def toRad_values)

text \<open>
  C2, amended. The three assignments set the Euler angles of the pivot, whose order
  is the default \<^verbatim>\<open>'XYZ'\<close>; the sequence of the assignments does not enter. For every
  measurement set the rotation of the pivot, which is the final world rotation of the
  distal bone, is \<open>Rx(anteversion) \<cdot> Ry(rotation) \<cdot> Rz(valgus)\<close> with the angles converted
  from degrees to radians. The order matters: at \<open>90\<close> degrees for all three angulations
  this product differs from both readings of the order Z, X, Y.
\<close>

theorem pivot_rotation_is_euler_XYZ:
  assumes "sceneReady s"
  shows "map_option basis (distalWorldPose (measurementsEffect m s))
           = Some (multiply3 (makeRotationX (toRad (anteversionAngulation m)))
                    (multiply3 (makeRotationY (toRad (rotationalAngulation m)))
                               (makeRotationZ (toRad (valgusAngulation m)))))
       \<and> pivotRotation allAngulations90 \<noteq> specRotationZXYFixedAxes allAngulations90
       \<and> pivotRotation allAngulations90 \<noteq> specRotationZXYMovingAxes allAngulations90"
proof (intro conjI)
  show "map_option basis (distalWorldPose (measurementsEffect m s))
           = Some (multiply3 (makeRotationX (toRad (anteversionAngulation m)))
                    (multiply3 (makeRotationY (toRad (rotationalAngulation m)))
                               (makeRotationZ (toRad (valgusAngulation m)))))"
    using assms
    by (simp add: measurementsEffect_distalWorldPose pivotRotation_def
        makeRotationFromEuler_XYZ)
next
  show "pivotRotation allAngulations90 \<noteq> specRotationZXYFixedAxes allAngulations90"
    by (simp add: pivotRotation_def makeRotationFromEuler_def specRotationZXYFixedAxes_def
        makeRotationX_def makeRotationY_def makeRotationZ_def
        allAngulations90_def initialMeasurements_def toRad_values)
next
  show "pivotRotation allAngulations90 \<noteq> specRotationZXYMovingAxes allAngulations90"
    by (simp add: pivotRotation_def makeRotationFromEuler_def specRotationZXYMovingAxes_def
        makeRotationX_def makeRotationY_def makeRotationZ_def
        allAngulations90_def initialMeasurements_def toRad_values)
qed

theorem pivot_rotation_is_euler_XYZ_witness:
  "sceneReady mounted
   \<and> map_option basis (distalWorldPose (measurementsEffect allAngulations90 mounted))
       = Some (Matrix3 0 0 1  0 (- 1) 0  1 0 0)"
proof -
  have r: "sceneReady mounted" by (rule mounted_sceneReady)
  show ?thesis
    using r pivot_rotation_is_euler_XYZ [OF r, of allAngulations90]
    by (simp add: makeRotationX_def makeRotationY_def makeRotationZ_def
        allAngulations90_def initialMeasurements_def toRad_values)
qed

text \<open>
  C3. Running the effect a second time with the same measurement set leaves the distal
  bone with the world position and rotation it had after the first run: every run
  starts from a distal bone at its anatomical position with zero rotation.
\<close>

theorem measurementsEffect_idempotent:
  assumes "sceneReady s"
  shows "distalWorldPose (measurementsEffect m (measurementsEffect m s))
           = distalWorldPose (measurementsEffect m s)
       \<and> distalWorldPose (measurementsEffect m s) \<noteq> None"
proof -
  have "sceneReady (measurementsEffect m s)"
    using assms by (rule measurementsEffect_sceneReady)
  then show ?thesis
    using assms by (simp add: measurementsEffect_distalWorldPose)
qed

theorem measurementsEffect_idempotent_witness:
  "sceneReady mounted
   \<and> distalWorldPose
        (measurementsEffect rotatedAnteriorTen (measurementsEffect rotatedAnteriorTen mounted))
       = distalWorldPose (measurementsEffect rotatedAnteriorTen mounted)
   \<and> distalWorldPose (measurementsEffect rotatedAnteriorTen mounted) \<noteq> None"
proof -
  have r: "sceneReady mounted" by (rule mounted_sceneReady)
  show ?thesis
    using r measurementsEffect_idempotent [OF r, of rotatedAnteriorTen] by simp
qed

text \<open>
  C8. The poses after an invocation depend on the measurement set of that invocation
  only: whatever measurement sets the earlier invocations of two runs were given, the
  same current measurement set leaves both bones with the same world position and
  rotation in both runs.
\<close>

theorem measurementsEffect_history_free:
  "distalWorldPose (measurementsEffect m (run earlier))
     = distalWorldPose (measurementsEffect m (run earlier'))
   \<and> proximalWorldPose (measurementsEffect m (run earlier))
     = proximalWorldPose (measurementsEffect m (run earlier'))
   \<and> distalWorldPose (measurementsEffect m (run earlier)) \<noteq> None
   \<and> proximalWorldPose (measurementsEffect m (run earlier)) \<noteq> None"
  by (simp add: measurementsEffect_distalWorldPose measurementsEffect_proximalWorldPose
      run_sceneReady)

text \<open>
  C9. After the effect the proximal bone is at \<open>(0, - fracturePosition / 2, 0)\<close> with
  identity rotation. The part of the effect after \<^verbatim>\<open>updateBoneGeometries\<close> does not
  touch it, and two measurement sets with the same fracture position, whatever their
  displacements, angulations and length, give it the same pose.
\<close>

theorem proximal_pose_unaffected:
  assumes "sceneReady s" and "sceneRef s = Some scene"
    and "fracturePosition m' = fracturePosition m"
  shows "proximalWorldPose (measurementsEffect m s)
           = Some (Matrix4 identity3 (Vector3 0 (- (fracturePosition m / 2)) 0))
       \<and> proximalBoneRef (measurementsEffect m s)
           = proximalBoneRef (snd (updateBoneGeometries m scene s))
       \<and> proximalWorldPose (measurementsEffect m' s)
           = proximalWorldPose (measurementsEffect m s)"
proof -
  from assms(1) obtain scene0 old where
    "sceneRef s = Some scene0" "distalBoneRef s = Some old"
    by (rule sceneReadyE)
  with assms(2) have "sceneRef s = Some scene" "distalBoneRef s = Some old" by simp_all
  then have "proximalBoneRef (measurementsEffect m s)
           = proximalBoneRef (snd (updateBoneGeometries m scene s))"
    by (rule measurementsEffect_proximal)
  then show ?thesis
    using assms(1,3) by (simp add: measurementsEffect_proximalWorldPose)
qed

theorem proximal_pose_unaffected_witness:
  "sceneReady mounted
   \<and> sceneRef mounted
       = Some \<lparr> ident = 0, position = Vector3 0 0 0, orientation = identity3,
                parent = None, children = [2, 3, 4, 5, 6, 7] \<rparr>
   \<and> fracturePosition allAngulations90 = fracturePosition initialMeasurements
   \<and> proximalWorldPose (measurementsEffect initialMeasurements mounted)
       = Some (Matrix4 identity3 (Vector3 0 (- 75) 0))
   \<and> proximalWorldPose (measurementsEffect allAngulations90 mounted)
       = proximalWorldPose (measurementsEffect initialMeasurements mounted)"
proof -
  have r: "sceneReady mounted" by (rule mounted_sceneReady)
  have sc: "sceneRef mounted
       = Some \<lparr> ident = 0, position = Vector3 0 0 0, orientation = identity3,
                parent = None, children = [2, 3, 4, 5, 6, 7] \<rparr>"
    by (simp add: mounted_def mountEffect_def initialState_def initialMeasurements_def
        updateBoneGeometries_unfold newObject3D_def setRotation_def identity3_def split_def)
  have fp: "fracturePosition allAngulations90 = fracturePosition initialMeasurements"
    by (simp add: allAngulations90_def)
  show ?thesis
    using r sc fp proximal_pose_unaffected [OF r sc fp]
    by (simp add: initialMeasurements_def)
qed

end
